theory Spec2Isabelle
  imports Main
begin

section \<open>Values of the declarative files\<close>

text \<open>
  The repository is declarative: two TypeScript object literals (\<^verbatim>\<open>app.config.ts\<close>,
  \<^verbatim>\<open>nuxt.config.ts\<close>) and markdown posts with a YAML metadata block. An object whose
  keys matter (a socials mapping, a metadata block, the build configuration) is an
  association list in declaration order; its values are strings, lists of strings or
  nested objects.
\<close>

datatype val = Str string | Seq "string list" | Obj "(string \<times> val) list"

type_synonym object = "(string \<times> val) list"

definition keys :: "object \<Rightarrow> string list" where
  "keys obj = map fst obj"

definition scalar :: "string \<Rightarrow> object \<Rightarrow> string option" where
  "scalar k obj = (case map_of obj k of Some (Str s) \<Rightarrow> Some s | _ \<Rightarrow> None)"

definition sequence :: "string \<Rightarrow> object \<Rightarrow> string list option" where
  "sequence k obj = (case map_of obj k of Some (Seq xs) \<Rightarrow> Some xs | _ \<Rightarrow> None)"

definition section_of :: "string \<Rightarrow> object \<Rightarrow> object option" where
  "section_of k obj = (case map_of obj k of Some (Obj kvs) \<Rightarrow> Some kvs | _ \<Rightarrow> None)"

text \<open>The string-valued entries of an object, in declaration order.\<close>

fun links :: "object \<Rightarrow> (string \<times> string) list" where
  "links [] = []"
| "links ((k, Str s) # kvs) = (k, s) # links kvs"
| "links ((k, v) # kvs) = links kvs"

fun starts_with :: "string \<Rightarrow> string \<Rightarrow> bool" where
  "starts_with [] s = True"
| "starts_with (c # p) [] = False"
| "starts_with (c # p) (d # s) = (c = d \<and> starts_with p s)"

text \<open>A root-relative path begins with a slash.\<close>

definition root_relative :: "string \<Rightarrow> bool" where
  "root_relative s = starts_with ''/'' s"

text \<open>An absolute web address: an http or https scheme followed by something.\<close>

definition is_url :: "string \<Rightarrow> bool" where
  "is_url s = ((starts_with ''https://'' s \<and> length ''https://'' < length s)
             \<or> (starts_with ''http://'' s \<and> length ''http://'' < length s))"

section \<open>The site configuration (app.config.ts)\<close>

record menu_entry =
  name :: string
  path :: string

record feature =
  enabled :: bool

record newsletter = feature +
  form_action :: string
  provider :: string

record author =
  username :: string
  default :: bool
  name :: string
  description :: string
  avatar :: string
  socials :: object

record robots_rule =
  UserAgent :: string
  Allow :: "string list"

record site_config =
  logo :: string
  url :: string
  theme :: string
  name :: string
  description :: string
  socials :: object
  newsletter :: newsletter
  comments :: feature
  table_of_contents :: bool
  authors :: "author list"
  menu :: "unit \<Rightarrow> menu_entry list"
  robots :: "robots_rule list"

text \<open>The only author declared, lines 53 to 66.\<close>

definition gmaisse :: author where
  "gmaisse = \<lparr>
     username = ''gmaisse'',
     default = True,
     name = ''Gaetan Maisse'',
     description = '''',
     avatar = ''/images/portrait.jpg'',
     socials = [
       (''twitter'', Str ''https://twitter.com/gaetanmaisse''),
       (''twitter_username'', Str ''gaetanmaisse''),
       (''linkedin'', Str ''https://www.linkedin.com/in/gaetanmaisse/''),
       (''github'', Str ''https://github.com/gaetanmaisse'')]
   \<rparr>"

text \<open>
  The object passed to \<^verbatim>\<open>defineAppConfig\<close>. The keys that the file only carries in
  comments (\<^verbatim>\<open>avatar\<close>, \<^verbatim>\<open>analytics\<close>, \<^verbatim>\<open>hyvor_talk\<close>) are not declared.
\<close>

definition app_config :: site_config where
  "app_config = \<lparr>
     logo = ''/images/logo.svg'',
     url = ''https://gaetanmaisse.github.io/gmaisse.dev/'',
     theme = ''mistral'',
     name = ''gmaisse.dev'',
     description = ''lorem ipsum dolor sit amet, consectetur adipiscing elit. Ut elit tellus, luctus nec ullamcorper mattis, pulvinar dapibus leo.'',
     socials = [
       (''twitter'', Str ''https://twitter.com''),
       (''youtube'', Str ''https://youtube.com''),
       (''linkedin'', Str ''https://linkedin.com''),
       (''facebook'', Str ''https://facebook.com''),
       (''instagram'', Str ''https://instagram.com''),
       (''github'', Str ''https://github.com''),
       (''sharing_networks'', Seq [''facebook'', ''twitter'', ''linkedin'', ''email'',
          ''pinterest'', ''reddit'', ''pocket'', ''whatsapp'', ''telegram'', ''skype''])],
     newsletter = \<lparr>
       enabled = True,
       form_action = ''rssfeedpulse'',
       provider = ''https://rssfeedpulse.com/api/campaign/996539cf-73e4-47b5-8d7c-2d7450174467/subscribe''\<rparr>,
     comments = \<lparr>enabled = False\<rparr>,
     table_of_contents = False,
     authors = [gmaisse],
     menu = (\<lambda>_. [
       \<lparr>menu_entry.name = ''Home'', path = ''/''\<rparr>,
       \<lparr>menu_entry.name = ''Documentation'', path = ''/about''\<rparr>,
       \<lparr>menu_entry.name = ''Archives'', path = ''/archives''\<rparr>]),
     robots = [\<lparr>UserAgent = ''*'', Allow = [''/'']\<rparr>]
   \<rparr>"

text \<open>
  The sharing networks the configuration may name, as the comment on line 29 of
  \<^verbatim>\<open>app.config.ts\<close> lists them (``possible values'').
\<close>

definition supported_networks :: "string list" where
  "supported_networks = [''facebook'', ''twitter'', ''linkedin'', ''email'', ''pinterest'',
     ''reddit'', ''pocket'', ''whatsapp'', ''telegram'', ''skype'']"

definition sharing_networks :: "site_config \<Rightarrow> string list" where
  "sharing_networks cfg =
     (case sequence ''sharing_networks'' (site_config.socials cfg) of
        Some ns \<Rightarrow> ns | None \<Rightarrow> [])"

text \<open>The platform keys of the site-level mapping: those that hold a string.\<close>

definition platform_keys :: "site_config \<Rightarrow> string list" where
  "platform_keys cfg = map fst (links (site_config.socials cfg))"

definition default_authors :: "site_config \<Rightarrow> author list" where
  "default_authors cfg = filter author.default (authors cfg)"

text \<open>
  The invariant on the authors list: at most one default author, and exactly one as
  soon as the list has an author.
\<close>

definition default_author_invariant :: "site_config \<Rightarrow> bool" where
  "default_author_invariant cfg =
     (length (default_authors cfg) \<le> 1
      \<and> (authors cfg = [] \<or> length (default_authors cfg) = 1))"

text \<open>Calling the \<^verbatim>\<open>menu\<close> arrow function of the configuration.\<close>

definition menu_entries :: "site_config \<Rightarrow> menu_entry list" where
  "menu_entries cfg = menu cfg ()"

text \<open>Every path into the site that the configuration declares, in declaration order.\<close>

definition internal_paths :: "site_config \<Rightarrow> string list" where
  "internal_paths cfg =
     logo cfg # map avatar (authors cfg) @ map menu_entry.path (menu_entries cfg)
       @ concat (map Allow (robots cfg))"

section \<open>The build configuration (nuxt.config.ts)\<close>

text \<open>
  The object passed to \<^verbatim>\<open>defineNuxtConfig\<close>: every option of the build tool is
  optional, so the literal is the list of the settings it declares.
\<close>

definition nuxt_config :: object where
  "nuxt_config = [
     (''extends'', Seq [''@bloggrify/core'', ''@bloggrify/mistral'']),
     (''app'', Obj [(''baseURL'', Str ''/gmaisse.dev/'')]),
     (''compatibilityDate'', Str ''2024-07-03'')]"

definition base_url :: "object \<Rightarrow> string option" where
  "base_url cfg = (case section_of ''app'' cfg of
      Some app \<Rightarrow> scalar ''baseURL'' app | None \<Rightarrow> None)"

section \<open>The posts\<close>

text \<open>
  A post file: its path under the sources, the metadata block between the two
  \<^verbatim>\<open>---\<close> lines (a YAML mapping, in the order of its lines), and the markdown body
  that follows. Of the body, the opening paragraph is kept line by line (it starts
  with the empty line after the block); the prose after it is not reproduced.
\<close>

record post =
  source_file :: string
  frontmatter :: object
  body :: "string list"

definition exhaustive_type_checking :: post where
  "exhaustive_type_checking = \<lparr>
     source_file = ''content/20240621/exhaustive-type-checking.md'',
     frontmatter = [
       (''title'', Str ''Exhaustive Type Checking with Zod''),
       (''description'', Str ''Embrace Exhaustive Type Checking with Zod's Discriminated Unions''),
       (''date'', Str ''2024-02-20''),
       (''categories'', Seq [''blog'']),
       (''tags'', Seq [''TypeScript'', ''Zod'']),
       (''cover'', Str ''covers/exhaustive-type-checking.jpg'')],
     body = ['''',
       ''As a TypeScript developer, ensuring that your code is robust and error-free is paramount. One of the most powerful tools'',
       ''to achieve this is Zod's discriminated union feature, particularly for its exhaustive type checking capability.'']
   \<rparr>"

text \<open>The second post; the name of its file is not known, its content is.\<close>

definition part_000 :: post where
  "part_000 = \<lparr>
     source_file = ''unnamed/part_000'',
     frontmatter = [
       (''title'', Str ''Parsing Node.js Command-Line Arguments the Easy Way''),
       (''description'', Str ''Learn how to parse command-line arguments in Node.js using built-in `parseArgs` function''),
       (''date'', Str ''2024-07-03''),
       (''categories'', Seq [''blog'']),
       (''tags'', Seq [''TypeScript'', ''Node.js'']),
       (''cover'', Str ''covers/node-parse-args.jpg'')],
     body = ['''',
       ''The ability to parse command-line arguments is essential for many Node.js applications. Whether you're building a CLI tool, a server application, or a script, handling command-line arguments efficiently can greatly enhance your application's usability and functionality.'']
   \<rparr>"

definition posts :: "post list" where
  "posts = [exhaustive_type_checking, part_000]"

section \<open>Calendar dates\<close>

text \<open>
  Modelled from the spec: the date parser belongs to the external generator and is not
  in the sources. The spec asks for a date in ISO-8601 that parses as a valid calendar
  date: the extended calendar form, four digits of year, two of month, two of day,
  separated by hyphens, the day within the length of the month (Gregorian leap years).
\<close>

definition digit :: "char \<Rightarrow> nat option" where
  "digit c = map_of [(CHR ''0'', 0), (CHR ''1'', 1), (CHR ''2'', 2), (CHR ''3'', 3),
     (CHR ''4'', 4), (CHR ''5'', 5), (CHR ''6'', 6), (CHR ''7'', 7), (CHR ''8'', 8),
     (CHR ''9'', 9)] c"

fun digits :: "nat \<Rightarrow> string \<Rightarrow> nat option" where
  "digits acc [] = Some acc"
| "digits acc (c # cs) =
     (case digit c of None \<Rightarrow> None | Some d \<Rightarrow> digits (10 * acc + d) cs)"

definition number :: "string \<Rightarrow> nat option" where
  "number s = (if s = [] then None else digits 0 s)"

definition leap_year :: "nat \<Rightarrow> bool" where
  "leap_year y = (y mod 400 = 0 \<or> (y mod 4 = 0 \<and> y mod 100 \<noteq> 0))"

definition days_in_month :: "nat \<Rightarrow> nat \<Rightarrow> nat" where
  "days_in_month y m =
     (if m = 2 then (if leap_year y then 29 else 28)
      else if m = 4 \<or> m = 6 \<or> m = 9 \<or> m = 11 then 30
      else 31)"

type_synonym calendar_date = "nat \<times> nat \<times> nat"

text \<open>
  Modelled from the spec: the parser of the date field, which the sources do not hold.
  A date is year, month, day; anything that is not a valid calendar date in the
  ISO-8601 form is rejected.
\<close>

definition parse_iso_date :: "string \<Rightarrow> calendar_date option" where
  "parse_iso_date s =
     (if length s = 10 \<and> s ! 4 = CHR ''-'' \<and> s ! 7 = CHR ''-'' then
        (case (number (take 4 s), number (take 2 (drop 5 s)), number (take 2 (drop 8 s))) of
           (Some y, Some m, Some d) \<Rightarrow>
             if 1 \<le> m \<and> m \<le> 12 \<and> 1 \<le> d \<and> d \<le> days_in_month y m
             then Some (y, m, d) else None
         | _ \<Rightarrow> None)
      else None)"

section \<open>The shape of a post\<close>

text \<open>
  The content file format of the spec, as a check on a post: the six keys with their
  kinds (text, text, ISO-8601 date, sequence, sequence, relative path), and a body
  after the block.
\<close>

definition relative_path :: "string \<Rightarrow> bool" where
  "relative_path s = (s \<noteq> [] \<and> \<not> root_relative s \<and> \<not> is_url s)"

definition post_date :: "post \<Rightarrow> calendar_date option" where
  "post_date p = (case scalar ''date'' (frontmatter p) of
      Some s \<Rightarrow> parse_iso_date s | None \<Rightarrow> None)"

definition post_cover :: "post \<Rightarrow> string option" where
  "post_cover p = scalar ''cover'' (frontmatter p)"

definition has_post_shape :: "post \<Rightarrow> bool" where
  "has_post_shape p =
     (scalar ''title'' (frontmatter p) \<noteq> None
      \<and> scalar ''description'' (frontmatter p) \<noteq> None
      \<and> post_date p \<noteq> None
      \<and> sequence ''categories'' (frontmatter p) \<noteq> None
      \<and> sequence ''tags'' (frontmatter p) \<noteq> None
      \<and> (case post_cover p of Some c \<Rightarrow> relative_path c | None \<Rightarrow> False)
      \<and> body p \<noteq> [])"

section \<open>Resolving the author of a post\<close>

text \<open>
  Modelled from the spec: the resolution of a post's author is done by the external
  framework and is not in the sources. The spec's words are ``explicit reference, else
  default-flagged author, else error'', a post referring to an author by username.
  The result is the username of the effective author.
\<close>

datatype resolve_error = NoDefaultAuthor

text \<open>
  Modelled from the spec: the explicit reference of a post to an author, the username
  under the key author of its metadata block; the lookup is the framework's, absent
  from the sources.
\<close>

definition post_author :: "post \<Rightarrow> string option" where
  "post_author p = scalar ''author'' (frontmatter p)"

text \<open>
  Modelled from the spec: the framework's resolution of the effective author, absent
  from the sources; explicit reference, else default-flagged author, else error.
\<close>

definition resolve_author :: "site_config \<Rightarrow> post \<Rightarrow> resolve_error + string" where
  "resolve_author cfg p =
     (case post_author p of
        Some u \<Rightarrow> Inr u
      | None \<Rightarrow>
          (case find author.default (authors cfg) of
             Some a \<Rightarrow> Inr (username a)
           | None \<Rightarrow> Inl NoDefaultAuthor))"

section \<open>Loading the posts at build time\<close>

text \<open>
  Modelled from the spec: the build is the external generator's and is not in the
  sources. The spec's words are that a malformed date field ``should fail the build
  rather than silently sort incorrectly'', and that a missing required metadata key
  should fail it with a message that identifies the file. A loaded post carries the
  calendar date that index pages order it by.
\<close>

datatype build_error = MissingKey string string | MalformedDate string

text \<open>
  Modelled from the spec: the generator's reading of one post, absent from the sources;
  a missing date key and a malformed date each fail, naming the file.
\<close>

definition load_post :: "post \<Rightarrow> build_error + (calendar_date \<times> post)" where
  "load_post p =
     (case map_of (frontmatter p) ''date'' of
        None \<Rightarrow> Inl (MissingKey (source_file p) ''date'')
      | Some v \<Rightarrow>
          (case post_date p of
             None \<Rightarrow> Inl (MalformedDate (source_file p))
           | Some d \<Rightarrow> Inr (d, p)))"

text \<open>
  Modelled from the spec: the generator's build over the posts, absent from the
  sources; it fails with the error of the first post that fails to load.
\<close>

fun build :: "post list \<Rightarrow> build_error + (calendar_date \<times> post) list" where
  "build [] = Inr []"
| "build (p # ps) =
     (case load_post p of
        Inl e \<Rightarrow> Inl e
      | Inr x \<Rightarrow> (case build ps of Inl e \<Rightarrow> Inl e | Inr xs \<Rightarrow> Inr (x # xs)))"

section \<open>Auxiliary facts\<close>

lemma find_filter_hd:
  "find P xs = (case filter P xs of [] \<Rightarrow> None | x # _ \<Rightarrow> Some x)"
  by (induction xs) auto

lemma load_post_Inr:
  "load_post p = Inr (d, q) \<Longrightarrow> q = p \<and> post_date p = Some d"
  by (auto simp: load_post_def split: option.splits)

lemma build_fails:
  "p \<in> set ps \<Longrightarrow> post_date p = None \<Longrightarrow> isl (build ps)"
  by (induction ps) (auto simp: load_post_def split: option.splits sum.splits)

lemma build_Inr:
  "build ps = Inr xs \<Longrightarrow> map snd xs = ps \<and> list_all (\<lambda>(d, q). post_date q = Some d) xs"
  by (induction ps arbitrary: xs) (auto split: sum.splits dest: load_post_Inr)

lemma date_exhaustive_type_checking:
  "map_of (frontmatter exhaustive_type_checking) ''date'' = Some (Str ''2024-02-20'')"
  by (simp add: exhaustive_type_checking_def)

lemma date_part_000:
  "map_of (frontmatter part_000) ''date'' = Some (Str ''2024-07-03'')"
  by (simp add: part_000_def)

section \<open>The authors list\<close>

text \<open>
  C1. The authors list of the site configuration satisfies the default-author
  invariant: at most one author is the default one, and exactly one is, the list being
  non-empty. The list has exactly one author, with username gmaisse, and its default
  flag is true.
\<close>

theorem authors_one_default:
  "default_author_invariant app_config
   \<and> length (default_authors app_config) \<le> 1
   \<and> authors app_config \<noteq> []
   \<and> length (default_authors app_config) = 1
   \<and> length (authors app_config) = 1
   \<and> map username (authors app_config) = [''gmaisse'']
   \<and> map author.default (authors app_config) = [True]"
  by (simp add: default_author_invariant_def default_authors_def app_config_def gmaisse_def)

section \<open>The effective author of a post\<close>

text \<open>
  C2. For every post and every configuration, the resolution returns the author the
  post names when it names one; otherwise the default-flagged author of the
  configuration (the one such author when there is exactly one, and in any case one of
  them); otherwise, with no reference and no default author, the error. The post dated
  2024-07-03 has no author key and resolves to gmaisse under the declared
  configuration, and so does the other post.
\<close>

theorem resolve_author_rule:
  "(post_author p = Some u \<longrightarrow> resolve_author cfg p = Inr u)
   \<and> (post_author p = None \<and> default_authors cfg = [a] \<longrightarrow>
        resolve_author cfg p = Inr (username a))
   \<and> (post_author p = None \<and> default_authors cfg \<noteq> [] \<longrightarrow>
        resolve_author cfg p \<in> Inr ` username ` set (default_authors cfg))
   \<and> (post_author p = None \<and> default_authors cfg = [] \<longrightarrow>
        resolve_author cfg p = Inl NoDefaultAuthor)
   \<and> ''author'' \<notin> set (keys (frontmatter part_000))
   \<and> scalar ''date'' (frontmatter part_000) = Some ''2024-07-03''
   \<and> post_author part_000 = None
   \<and> resolve_author app_config part_000 = Inr ''gmaisse''
   \<and> resolve_author app_config exhaustive_type_checking = Inr ''gmaisse''"
proof -
  have explicit: "post_author p = Some u \<longrightarrow> resolve_author cfg p = Inr u"
    by (simp add: resolve_author_def)
  have one: "post_author p = None \<and> default_authors cfg = [a] \<longrightarrow>
      resolve_author cfg p = Inr (username a)"
    by (simp add: resolve_author_def default_authors_def find_filter_hd)
  have some: "post_author p = None \<and> default_authors cfg \<noteq> [] \<longrightarrow>
      resolve_author cfg p \<in> Inr ` username ` set (default_authors cfg)"
    by (cases "default_authors cfg")
      (auto simp: resolve_author_def default_authors_def find_filter_hd)
  have none: "post_author p = None \<and> default_authors cfg = [] \<longrightarrow>
      resolve_author cfg p = Inl NoDefaultAuthor"
    by (simp add: resolve_author_def default_authors_def find_filter_hd)
  have nokey: "''author'' \<notin> set (keys (frontmatter part_000))"
    by (simp add: keys_def part_000_def)
  have date: "scalar ''date'' (frontmatter part_000) = Some ''2024-07-03''"
    by (simp add: scalar_def part_000_def)
  have pa: "post_author part_000 = None"
    by (simp add: post_author_def scalar_def part_000_def)
  have r1: "resolve_author app_config part_000 = Inr ''gmaisse''"
    by (simp add: resolve_author_def pa app_config_def gmaisse_def)
  have r2: "resolve_author app_config exhaustive_type_checking = Inr ''gmaisse''"
    by (simp add: resolve_author_def post_author_def scalar_def exhaustive_type_checking_def
        app_config_def gmaisse_def)
  from explicit one some none nokey date pa r1 r2 show ?thesis by blast
qed

text \<open>
  The rule at three inputs: the second post with an author key added, the second post
  as it is, and the second post under the configuration with its authors removed.
\<close>

theorem resolve_author_rule_witness:
  "resolve_author app_config
      (part_000\<lparr>frontmatter := (''author'', Str ''jdoe'') # frontmatter part_000\<rparr>) = Inr ''jdoe''
   \<and> resolve_author app_config part_000 = Inr ''gmaisse''
   \<and> resolve_author (app_config\<lparr>authors := []\<rparr>) part_000 = Inl NoDefaultAuthor"
  using resolve_author_rule [of
      "part_000\<lparr>frontmatter := (''author'', Str ''jdoe'') # frontmatter part_000\<rparr>"
      "''jdoe''" app_config gmaisse]
    resolve_author_rule [of part_000 "''jdoe''" app_config gmaisse]
    resolve_author_rule [of part_000 "''jdoe''" "app_config\<lparr>authors := []\<rparr>" gmaisse]
  by (simp add: post_author_def scalar_def default_authors_def app_config_def gmaisse_def)

section \<open>The socials mappings\<close>

text \<open>
  C3, as stated, fails: the only author of the configuration has, under the key
  twitter_username of its social-links mapping, the account handle gaetanmaisse, which
  is not a URL.
\<close>

theorem author_socials_value_not_url:
  "gmaisse \<in> set (authors app_config)
   \<and> map_of (author.socials gmaisse) ''twitter_username'' = Some (Str ''gaetanmaisse'')
   \<and> \<not> is_url ''gaetanmaisse''"
  by (simp add: app_config_def gmaisse_def is_url_def)

text \<open>
  C3, amended. The site-level mapping declares the platforms twitter, youtube,
  linkedin, facebook, instagram and github, then sharing_networks, and every platform
  holds a URL. In every author's mapping every value is a string; every key other
  than twitter_username is one of those platforms and holds a URL, and twitter_username
  holds the handle gaetanmaisse, not a URL.
\<close>

theorem socials_platform_links:
  "platform_keys app_config =
      [''twitter'', ''youtube'', ''linkedin'', ''facebook'', ''instagram'', ''github'']
   \<and> keys (site_config.socials app_config) = platform_keys app_config @ [''sharing_networks'']
   \<and> list_all is_url (map snd (links (site_config.socials app_config)))
   \<and> list_all (\<lambda>a. length (links (author.socials a)) = length (author.socials a)
        \<and> list_all (\<lambda>(k, s).
              if k = ''twitter_username'' then s = ''gaetanmaisse'' \<and> \<not> is_url s
              else k \<in> set (platform_keys app_config) \<and> is_url s)
            (links (author.socials a)))
       (authors app_config)"
  by (simp add: platform_keys_def keys_def app_config_def gmaisse_def is_url_def)

text \<open>
  C4. The sharing networks of the declared configuration are the ten names listed, and
  each of them is one of the supported networks.
\<close>

theorem sharing_networks_supported:
  "sharing_networks app_config = [''facebook'', ''twitter'', ''linkedin'', ''email'',
      ''pinterest'', ''reddit'', ''pocket'', ''whatsapp'', ''telegram'', ''skype'']
   \<and> list_all (\<lambda>n. n \<in> set supported_networks) (sharing_networks app_config)
   \<and> set (sharing_networks app_config) \<subseteq> set supported_networks"
  by (simp add: sharing_networks_def sequence_def app_config_def supported_networks_def)

section \<open>The newsletter record\<close>

text \<open>
  C5. The newsletter record of the declared configuration has the three fields
  enabled, form_action and provider; enabled is true, form_action and provider are
  non-empty, and provider holds a URL. (The form_action declared is the plain word
  rssfeedpulse.)
\<close>

theorem newsletter_record:
  "newsletter app_config = \<lparr>enabled = True, form_action = ''rssfeedpulse'',
      provider = ''https://rssfeedpulse.com/api/campaign/996539cf-73e4-47b5-8d7c-2d7450174467/subscribe''\<rparr>
   \<and> enabled (newsletter app_config)
   \<and> form_action (newsletter app_config) \<noteq> []
   \<and> provider (newsletter app_config) \<noteq> []
   \<and> is_url (provider (newsletter app_config))"
  by (simp add: app_config_def is_url_def)

section \<open>The posts\<close>

text \<open>
  C6. Both posts of the repository have the shape of a post: a metadata block with the
  keys title, description, date, categories, tags and cover, where title and
  description are text, date is an ISO-8601 calendar date, categories and tags are
  sequences and cover is a relative path, and a body after the block.
\<close>

theorem posts_have_shape:
  "list_all has_post_shape posts
   \<and> map (\<lambda>p. keys (frontmatter p)) posts =
       [[''title'', ''description'', ''date'', ''categories'', ''tags'', ''cover''],
        [''title'', ''description'', ''date'', ''categories'', ''tags'', ''cover'']]
   \<and> map post_date posts = [Some (2024, 2, 20), Some (2024, 7, 3)]
   \<and> map post_cover posts =
       [Some ''covers/exhaustive-type-checking.jpg'', Some ''covers/node-parse-args.jpg'']
   \<and> length posts = 2"
  by (simp add: posts_def has_post_shape_def exhaustive_type_checking_def part_000_def
      keys_def scalar_def sequence_def post_date_def post_cover_def parse_iso_date_def
      number_def digit_def days_in_month_def leap_year_def relative_path_def
      root_relative_def is_url_def)

text \<open>
  C7. The date fields of the two posts are 2024-02-20 and 2024-07-03, and each parses
  as a valid calendar date. Loading the posts of the repository succeeds with these
  dates. For any list of posts, a post whose date does not parse makes the build fail,
  and a build that succeeds returns every post with the calendar date its date field
  parses to.
\<close>

theorem dates_valid_or_build_fails:
  "scalar ''date'' (frontmatter exhaustive_type_checking) = Some ''2024-02-20''
   \<and> scalar ''date'' (frontmatter part_000) = Some ''2024-07-03''
   \<and> parse_iso_date ''2024-02-20'' = Some (2024, 2, 20)
   \<and> parse_iso_date ''2024-07-03'' = Some (2024, 7, 3)
   \<and> list_all (\<lambda>p. post_date p \<noteq> None) posts
   \<and> build posts = Inr [((2024, 2, 20), exhaustive_type_checking), ((2024, 7, 3), part_000)]
   \<and> (p \<in> set ps \<and> post_date p = None \<longrightarrow> isl (build ps))
   \<and> (build ps = Inr xs \<longrightarrow>
        map snd xs = ps \<and> list_all (\<lambda>(d, q). post_date q = Some d) xs)"
proof -
  have d1: "scalar ''date'' (frontmatter exhaustive_type_checking) = Some ''2024-02-20''"
    by (simp add: scalar_def date_exhaustive_type_checking)
  have d2: "scalar ''date'' (frontmatter part_000) = Some ''2024-07-03''"
    by (simp add: scalar_def date_part_000)
  have p1: "parse_iso_date ''2024-02-20'' = Some (2024, 2, 20)"
    by (simp add: parse_iso_date_def number_def digit_def days_in_month_def leap_year_def)
  have p2: "parse_iso_date ''2024-07-03'' = Some (2024, 7, 3)"
    by (simp add: parse_iso_date_def number_def digit_def days_in_month_def leap_year_def)
  have all: "list_all (\<lambda>p. post_date p \<noteq> None) posts"
    by (simp add: posts_def post_date_def d1 d2 p1 p2)
  have l1: "load_post exhaustive_type_checking = Inr ((2024, 2, 20), exhaustive_type_checking)"
    by (simp add: load_post_def post_date_def d1 p1 date_exhaustive_type_checking)
  have l2: "load_post part_000 = Inr ((2024, 7, 3), part_000)"
    by (simp add: load_post_def post_date_def d2 p2 date_part_000)
  have b: "build posts =
      Inr [((2024, 2, 20), exhaustive_type_checking), ((2024, 7, 3), part_000)]"
    by (simp add: posts_def l1 l2)
  from d1 d2 p1 p2 all b build_fails build_Inr show ?thesis by blast
qed

text \<open>
  The two general parts at concrete inputs: a list holding a post dated 2024-02-30, a
  day that February does not have, fails to build; the posts of the repository build.
\<close>

theorem dates_valid_or_build_fails_witness:
  "isl (build [exhaustive_type_checking,
          part_000\<lparr>frontmatter := [(''title'', Str ''X''), (''date'', Str ''2024-02-30'')]\<rparr>])
   \<and> parse_iso_date ''2024-02-30'' = None
   \<and> map snd [((2024, 2, 20), exhaustive_type_checking), ((2024, 7, 3), part_000)] = posts"
  using dates_valid_or_build_fails [of
      "part_000\<lparr>frontmatter := [(''title'', Str ''X''), (''date'', Str ''2024-02-30'')]\<rparr>"
      "[exhaustive_type_checking,
        part_000\<lparr>frontmatter := [(''title'', Str ''X''), (''date'', Str ''2024-02-30'')]\<rparr>]"
      "[]"]
    dates_valid_or_build_fails [of part_000 posts
      "[((2024, 2, 20), exhaustive_type_checking), ((2024, 7, 3), part_000)]"]
  by (simp add: post_date_def scalar_def parse_iso_date_def number_def digit_def
      days_in_month_def leap_year_def)

section \<open>The menu\<close>

text \<open>
  C8. The menu function of the configuration returns the three entries as declared and
  in the declared order: Home at /, Documentation at /about, Archives at /archives.
\<close>

theorem menu_declared_order:
  "menu app_config () =
      [\<lparr>menu_entry.name = ''Home'', path = ''/''\<rparr>,
       \<lparr>menu_entry.name = ''Documentation'', path = ''/about''\<rparr>,
       \<lparr>menu_entry.name = ''Archives'', path = ''/archives''\<rparr>]
   \<and> map (\<lambda>e. (menu_entry.name e, menu_entry.path e)) (menu_entries app_config) =
      [(''Home'', ''/''), (''Documentation'', ''/about''), (''Archives'', ''/archives'')]
   \<and> length (menu_entries app_config) = 3"
  by (simp add: menu_entries_def app_config_def)

section \<open>The build configuration\<close>

text \<open>
  C9. The build configuration declares exactly three settings, in this order: extends,
  the list of the core module then the mistral module; app, whose only entry is the
  base path /gmaisse.dev/; and compatibilityDate, 2024-07-03.
\<close>

theorem nuxt_config_settings:
  "keys nuxt_config = [''extends'', ''app'', ''compatibilityDate'']
   \<and> length nuxt_config = 3
   \<and> sequence ''extends'' nuxt_config = Some [''@bloggrify/core'', ''@bloggrify/mistral'']
   \<and> section_of ''app'' nuxt_config = Some [(''baseURL'', Str ''/gmaisse.dev/'')]
   \<and> base_url nuxt_config = Some ''/gmaisse.dev/''
   \<and> scalar ''compatibilityDate'' nuxt_config = Some ''2024-07-03''"
  by (simp add: keys_def nuxt_config_def sequence_def section_of_def base_url_def scalar_def)

section \<open>Paths\<close>

text \<open>
  C10. The internal paths of the site configuration (the logo, the avatar of the
  author, the three menu paths and the robots allow entry) all begin with a slash; the
  cover of each post is a relative path and does not begin with a slash.
\<close>

theorem internal_paths_root_relative:
  "internal_paths app_config =
      [''/images/logo.svg'', ''/images/portrait.jpg'', ''/'', ''/about'', ''/archives'', ''/'']
   \<and> list_all root_relative (internal_paths app_config)
   \<and> map post_cover posts =
       [Some ''covers/exhaustive-type-checking.jpg'', Some ''covers/node-parse-args.jpg'']
   \<and> list_all (\<lambda>p. case post_cover p of
          Some c \<Rightarrow> relative_path c \<and> \<not> root_relative c
        | None \<Rightarrow> False) posts"
  by (simp add: internal_paths_def menu_entries_def app_config_def gmaisse_def
      root_relative_def posts_def post_cover_def scalar_def exhaustive_type_checking_def
      part_000_def relative_path_def is_url_def)

end
